theory Spec2Isabelle
  imports Complex_Main
begin

section \<open>Values of the host language\<close>

text \<open>
  The document is produced by \<^verbatim>\<open>JSON.parse\<close> or \<^verbatim>\<open>yaml.load\<close> and cast
  to the interface types without any check, so the schema functions of
  \<^verbatim>\<open>src/utils/openApiParser.ts\<close> really run on arbitrary values. \<open>jsval\<close> is that
  value space:
  \<^item> \<open>JUndefined\<close> is the value of a missing property, \<open>JNull\<close> the literal null;
  \<^item> a finite number is a rational (every finite number of the runtime is one; the
    negative zero is not told from zero, which no modelled function can do either),
    \<open>JNaN\<close> is the value NaN and \<open>JInfinity negative\<close> one of the two infinities. The
    text of a finite number, as \<^verbatim>\<open>String\<close> and \<^verbatim>\<open>JSON.stringify\<close> print it, is
    computed by the runtime and is a parameter \<open>number_text\<close> of the functions that
    print;
  \<^item> a string is a list of code units, each below 256;
  \<^item> an object is the list of its own properties, with pairwise different keys, in the
    order \<^verbatim>\<open>Object.entries\<close> enumerates them: first the keys that are array indices,
    in ascending order, then the other keys in the order of their creation.
  Members that a value inherits from a prototype (\<^verbatim>\<open>constructor\<close>, \<^verbatim>\<open>toString\<close>, ...)
  are functions and objects of the runtime, which are no values of \<open>jsval\<close>: see
  \<open>getprop\<close>.
\<close>

datatype jsval =
    JUndefined
  | JNull
  | JBool bool
  | JNum rat
  | JNaN
  | JInfinity bool
  | JStr string
  | JArr "jsval list"
  | JObj "(string \<times> jsval) list"

text \<open>What the source can raise: a \<^verbatim>\<open>TypeError\<close> of the runtime, or
  \<^verbatim>\<open>new Error(message)\<close>.\<close>

datatype error = TypeError | Error string

text \<open>
  The outcome of a call: it returns a value, it throws, or the recursion did not come
  back within the depth the fuel allows (\<^verbatim>\<open>resolveSchema\<close> and
  \<^verbatim>\<open>generateExampleFromSchema\<close> have no guard against cyclic references).
\<close>

datatype 'a outcome = Return 'a | Throw error | OutOfFuel

text \<open>\<^verbatim>\<open>!v\<close> is false exactly for the truthy values.\<close>

fun truthy :: "jsval \<Rightarrow> bool" where
  "truthy JUndefined = False"
| "truthy JNull = False"
| "truthy (JBool b) = b"
| "truthy (JNum n) = (n \<noteq> 0)"
| "truthy JNaN = False"
| "truthy (JInfinity negative) = True"
| "truthy (JStr s) = (s \<noteq> [])"
| "truthy (JArr xs) = True"
| "truthy (JObj kvs) = True"

definition digit_char :: "nat \<Rightarrow> char" where
  "digit_char d = ''0123456789'' ! d"

fun decimal :: "nat \<Rightarrow> string" where
  "decimal n = (if n < 10 then [digit_char n] else decimal (n div 10) @ [digit_char (n mod 10)])"

declare decimal.simps [simp del]

definition is_digit :: "char \<Rightarrow> bool" where
  "is_digit c = (c \<in> set ''0123456789'')"

definition digit_val :: "char \<Rightarrow> nat" where
  "digit_val c = of_char c - 48"

text \<open>A property key is an array index when it is the canonical decimal numeral of a
  natural number: digits only, no leading zero.\<close>

definition array_index :: "string \<Rightarrow> nat option" where
  "array_index k =
     (if k \<noteq> [] \<and> list_all is_digit k \<and> (k = ''0'' \<or> hd k \<noteq> CHR ''0'')
      then Some (foldl (\<lambda>a c. 10 * a + digit_val c) 0 k) else None)"

text \<open>
  \<open>getprop v k\<close> is the member access \<^verbatim>\<open>v?.[k]\<close>: undefined on null and undefined,
  the own property of an object, an element or the length of an array or a string,
  undefined on numbers and booleans. The plain access \<^verbatim>\<open>v[k]\<close> and \<^verbatim>\<open>v.k\<close> differ
  from it only on null and undefined, where they throw a \<^verbatim>\<open>TypeError\<close>; the
  functions below use \<open>getprop\<close> for a plain access only behind a test that \<open>v\<close> is truthy.
  \<open>getprop\<close> reads own properties. The runtime looks further, in the prototype of the
  value. No prototype of the runtime has a member named \<^verbatim>\<open>$ref\<close>, \<^verbatim>\<open>example\<close>,
  \<^verbatim>\<open>default\<close>, \<^verbatim>\<open>type\<close>, \<^verbatim>\<open>enum\<close>, \<^verbatim>\<open>format\<close>, \<^verbatim>\<open>items\<close>, \<^verbatim>\<open>properties\<close>,
  \<^verbatim>\<open>oneOf\<close>, \<^verbatim>\<open>anyOf\<close>, \<^verbatim>\<open>allOf\<close>, \<^verbatim>\<open>openapi\<close>, \<^verbatim>\<open>paths\<close> or \<^verbatim>\<open>0\<close>, the keys
  that the modelled functions read by name, so for them the own property is what the
  code reads. Only \<^verbatim>\<open>resolveRef\<close> reads keys that the document chooses: where such a
  key is no own property but names an inherited member (\<^verbatim>\<open>constructor\<close>,
  \<^verbatim>\<open>toString\<close>, \<^verbatim>\<open>__proto__\<close>, ...), the code goes on with a function or object of the
  runtime, and \<open>getprop\<close>, which gives undefined there, does not describe it.
\<close>

fun getprop :: "jsval \<Rightarrow> string \<Rightarrow> jsval" where
  "getprop (JObj kvs) k = (case map_of kvs k of Some v \<Rightarrow> v | None \<Rightarrow> JUndefined)"
| "getprop (JArr xs) k =
     (case array_index k of
        Some i \<Rightarrow> (if i < length xs then xs ! i else JUndefined)
      | None \<Rightarrow> (if k = ''length'' then JNum (of_nat (length xs)) else JUndefined))"
| "getprop (JStr s) k =
     (case array_index k of
        Some i \<Rightarrow> (if i < length s then JStr [s ! i] else JUndefined)
      | None \<Rightarrow> (if k = ''length'' then JNum (of_nat (length s)) else JUndefined))"
| "getprop v k = JUndefined"

section \<open>Reference resolution\<close>

text \<open>\<^verbatim>\<open>s.split(c)\<close> for a one-character separator: the pieces between the
  separators, empty pieces included; never the empty list.\<close>

fun split_on :: "char \<Rightarrow> string \<Rightarrow> string list" where
  "split_on c [] = [[]]"
| "split_on c (x # xs) =
     (if x = c then [] # split_on c xs
      else (case split_on c xs of p # ps \<Rightarrow> (x # p) # ps | [] \<Rightarrow> [[x]]))"

text \<open>
  \<^verbatim>\<open>
  export function resolveRef(spec: OpenAPISpec, ref: string): OpenAPISchema | undefined {
    if (!ref.startsWith('#/')) return undefined;
    const parts = ref.slice(2).split('/');
    let current: any = spec;
    for (const part of parts) {
      current = current?.[part];
      if (!current) return undefined;
    }
    return current as OpenAPISchema;
  }
  \<close>
  \<open>ref_parts\<close> is the constant \<^verbatim>\<open>parts\<close>, \<open>walk\<close> the loop.
\<close>

definition ref_parts :: "string \<Rightarrow> string list" where
  "ref_parts ref = split_on CHR ''/'' (drop 2 ref)"

fun walk :: "jsval \<Rightarrow> string list \<Rightarrow> jsval" where
  "walk current [] = current"
| "walk current (part # parts) =
     (if \<not> truthy (getprop current part) then JUndefined else walk (getprop current part) parts)"

definition resolveRef :: "jsval \<Rightarrow> string \<Rightarrow> jsval" where
  "resolveRef spec ref =
     (if \<not> (take 2 ref = ''#/'') then JUndefined else walk spec (ref_parts ref))"

text \<open>
  \<^verbatim>\<open>
  export function resolveSchema(spec, schema: OpenAPISchema | undefined) {
    if (!schema) return undefined;
    if (schema.$ref) {
      const resolved = resolveRef(spec, schema.$ref);
      return resolved ? resolveSchema(spec, resolved) : undefined;
    }
    return schema;
  }
  \<close>
  A truthy \<^verbatim>\<open>$ref\<close> that is not a string has no \<^verbatim>\<open>startsWith\<close> method, so the call
  in \<^verbatim>\<open>resolveRef\<close> throws a \<^verbatim>\<open>TypeError\<close>. The fuel bounds the depth of the
  recursion, which a cycle of references makes unbounded.
\<close>

fun resolveSchema :: "nat \<Rightarrow> jsval \<Rightarrow> jsval \<Rightarrow> jsval outcome" where
  "resolveSchema 0 spec schema = OutOfFuel"
| "resolveSchema (Suc n) spec schema =
     (if \<not> truthy schema then Return JUndefined
      else if truthy (getprop schema ''$ref'') then
        (case getprop schema ''$ref'' of
           JStr ref \<Rightarrow>
             (if truthy (resolveRef spec ref) then resolveSchema n spec (resolveRef spec ref)
              else Return JUndefined)
         | _ \<Rightarrow> Throw TypeError)
      else Return schema)"

section \<open>Example synthesis\<close>

text \<open>\<^verbatim>\<open>Object.entries(v)\<close> for a truthy \<open>v\<close>: the properties of an object, the
  indexed elements of an array or of a string, nothing for a number or a boolean.\<close>

fun entries :: "jsval \<Rightarrow> (string \<times> jsval) list" where
  "entries (JObj kvs) = kvs"
| "entries (JArr xs) = zip (map decimal [0..<length xs]) xs"
| "entries (JStr s) = zip (map decimal [0..<length s]) (map (\<lambda>c. JStr [c]) s)"
| "entries v = []"

text \<open>
  The keys of an object are enumerated with the array indices first (the canonical
  numerals below \<open>2\<^sup>3\<^sup>2 - 1\<close>), in ascending order, and the other keys after them in the
  order of their creation. \<open>precedes k k'\<close> says that a new key \<open>k\<close> is enumerated before
  an older key \<open>k'\<close>.
\<close>

definition enumeration_index :: "string \<Rightarrow> nat option" where
  "enumeration_index k =
     (case array_index k of
        Some i \<Rightarrow> (if int i < 4294967295 then Some i else None)
      | None \<Rightarrow> None)"

definition precedes :: "string \<Rightarrow> string \<Rightarrow> bool" where
  "precedes k k' =
     (case enumeration_index k of
        Some i \<Rightarrow> (case enumeration_index k' of Some j \<Rightarrow> i < j | None \<Rightarrow> True)
      | None \<Rightarrow> False)"

fun insert_prop :: "(string \<times> 'a) list \<Rightarrow> string \<Rightarrow> 'a \<Rightarrow> (string \<times> 'a) list" where
  "insert_prop [] k v = [(k, v)]"
| "insert_prop ((k', v') # kvs) k v =
     (if precedes k k' then (k, v) # (k', v') # kvs else (k', v') # insert_prop kvs k v)"

text \<open>The definition of an own property, as the spread \<^verbatim>\<open>{...source}\<close> does it for every
  entry of the source: an existing key keeps its place and gets the value, a new key
  takes its place in the enumeration.\<close>

definition define_prop :: "(string \<times> 'a) list \<Rightarrow> string \<Rightarrow> 'a \<Rightarrow> (string \<times> 'a) list" where
  "define_prop kvs k v =
     (if k \<in> set (map fst kvs) then map (\<lambda>kv. if fst kv = k then (k, v) else kv) kvs
      else insert_prop kvs k v)"

text \<open>The assignment \<^verbatim>\<open>obj[key] = v\<close>, which \<^verbatim>\<open>Object.assign\<close> performs too: it defines
  the property, but for the key \<^verbatim>\<open>__proto__\<close> on an object that has no own property of
  that name, where it calls the setter of the prototype and leaves the own properties
  as they are.\<close>

definition set_prop :: "(string \<times> 'a) list \<Rightarrow> string \<Rightarrow> 'a \<Rightarrow> (string \<times> 'a) list" where
  "set_prop kvs k v =
     (if k = ''__proto__'' \<and> k \<notin> set (map fst kvs) then kvs else define_prop kvs k v)"

definition assign_all :: "(string \<times> 'a) list \<Rightarrow> (string \<times> 'a) list \<Rightarrow> (string \<times> 'a) list" where
  "assign_all obj kvs = foldl (\<lambda>acc kv. set_prop acc (fst kv) (snd kv)) obj kvs"

definition spread_all :: "(string \<times> 'a) list \<Rightarrow> (string \<times> 'a) list \<Rightarrow> (string \<times> 'a) list" where
  "spread_all obj kvs = foldl (\<lambda>acc kv. define_prop acc (fst kv) (snd kv)) obj kvs"

text \<open>\<^verbatim>\<open>typeof v === 'object'\<close>\<close>

fun typeof_object :: "jsval \<Rightarrow> bool" where
  "typeof_object JNull = True"
| "typeof_object (JArr xs) = True"
| "typeof_object (JObj kvs) = True"
| "typeof_object v = False"

text \<open>The calls of a \<^verbatim>\<open>forEach\<close> run in order, and the first one that does not
  return ends the loop with its outcome.\<close>

fun collect :: "'a outcome list \<Rightarrow> 'a list outcome" where
  "collect [] = Return []"
| "collect (Return v # rs) =
     (case collect rs of Return vs \<Rightarrow> Return (v # vs) | Throw e \<Rightarrow> Throw e | OutOfFuel \<Rightarrow> OutOfFuel)"
| "collect (Throw e # rs) = Throw e"
| "collect (OutOfFuel # rs) = OutOfFuel"

text \<open>The body of \<^verbatim>\<open>allOf.forEach\<close>, on the example of one branch:
  \<^verbatim>\<open>if (example && typeof example === 'object') Object.assign(merged, example)\<close>\<close>

definition merge_example :: "(string \<times> jsval) list \<Rightarrow> jsval \<Rightarrow> (string \<times> jsval) list" where
  "merge_example merged example =
     (if truthy example \<and> typeof_object example then assign_all merged (entries example)
      else merged)"

text \<open>
  \<^verbatim>\<open>
  export function generateExampleFromSchema(spec, schema: OpenAPISchema | undefined): any {
    if (!schema) return null;
    const resolved = resolveSchema(spec, schema);
    if (!resolved) return null;
    if (resolved.example !== undefined) return resolved.example;
    if (resolved.default !== undefined) return resolved.default;
    switch (resolved.type) {
      case 'string':
        if (resolved.enum) return resolved.enum[0];
        if (resolved.format === 'date') return '2024-01-15';
        if (resolved.format === 'date-time') return '2024-01-15T10:30:00Z';
        if (resolved.format === 'email') return 'user@example.com';
        if (resolved.format === 'uuid') return '550e8400-e29b-41d4-a716-446655440000';
        if (resolved.format === 'uri') return 'https://example.com';
        return 'string';
      case 'number':
      case 'integer':
        return resolved.enum ? resolved.enum[0] : 0;
      case 'boolean':
        return true;
      case 'array':
        const itemExample = generateExampleFromSchema(spec, resolved.items);
        return itemExample ? [itemExample] : [];
      case 'object':
        if (resolved.properties) {
          const obj: Record<string, any> = {};
          Object.entries(resolved.properties).forEach(([key, propSchema]) => {
            obj[key] = generateExampleFromSchema(spec, propSchema);
          });
          return obj;
        }
        return {};
      default:
        if (resolved.oneOf?.[0]) return generateExampleFromSchema(spec, resolved.oneOf[0]);
        if (resolved.anyOf?.[0]) return generateExampleFromSchema(spec, resolved.anyOf[0]);
        if (resolved.allOf) {
          const merged: Record<string, any> = {};
          resolved.allOf.forEach(subSchema => {
            const example = generateExampleFromSchema(spec, subSchema);
            if (example && typeof example === 'object') {
              Object.assign(merged, example);
            }
          });
          return merged;
        }
        return null;
    }
  }
  \<close>
  The fuel bounds the depth of the calls, the call of \<^verbatim>\<open>resolveSchema\<close> included.
  A truthy \<^verbatim>\<open>allOf\<close> that is not an array has no \<^verbatim>\<open>forEach\<close>: a \<^verbatim>\<open>TypeError\<close>.
\<close>

fun generateExampleFromSchema :: "nat \<Rightarrow> jsval \<Rightarrow> jsval \<Rightarrow> jsval outcome" where
  "generateExampleFromSchema 0 spec schema = OutOfFuel"
| "generateExampleFromSchema (Suc n) spec schema =
     (if \<not> truthy schema then Return JNull
      else case resolveSchema n spec schema of
        Throw e \<Rightarrow> Throw e
      | OutOfFuel \<Rightarrow> OutOfFuel
      | Return resolved \<Rightarrow>
        if \<not> truthy resolved then Return JNull
        else if getprop resolved ''example'' \<noteq> JUndefined then Return (getprop resolved ''example'')
        else if getprop resolved ''default'' \<noteq> JUndefined then Return (getprop resolved ''default'')
        else if getprop resolved ''type'' = JStr ''string'' then
          (if truthy (getprop resolved ''enum'') then Return (getprop (getprop resolved ''enum'') ''0'')
           else if getprop resolved ''format'' = JStr ''date'' then Return (JStr ''2024-01-15'')
           else if getprop resolved ''format'' = JStr ''date-time'' then Return (JStr ''2024-01-15T10:30:00Z'')
           else if getprop resolved ''format'' = JStr ''email'' then Return (JStr ''user@example.com'')
           else if getprop resolved ''format'' = JStr ''uuid''
             then Return (JStr ''550e8400-e29b-41d4-a716-446655440000'')
           else if getprop resolved ''format'' = JStr ''uri'' then Return (JStr ''https://example.com'')
           else Return (JStr ''string''))
        else if getprop resolved ''type'' = JStr ''number'' \<or> getprop resolved ''type'' = JStr ''integer'' then
          (if truthy (getprop resolved ''enum'') then Return (getprop (getprop resolved ''enum'') ''0'')
           else Return (JNum 0))
        else if getprop resolved ''type'' = JStr ''boolean'' then Return (JBool True)
        else if getprop resolved ''type'' = JStr ''array'' then
          (case generateExampleFromSchema n spec (getprop resolved ''items'') of
             Throw e \<Rightarrow> Throw e
           | OutOfFuel \<Rightarrow> OutOfFuel
           | Return itemExample \<Rightarrow>
               Return (if truthy itemExample then JArr [itemExample] else JArr []))
        else if getprop resolved ''type'' = JStr ''object'' then
          (if truthy (getprop resolved ''properties'') then
             (case collect (map (\<lambda>kv. generateExampleFromSchema n spec (snd kv))
                              (entries (getprop resolved ''properties''))) of
                Throw e \<Rightarrow> Throw e
              | OutOfFuel \<Rightarrow> OutOfFuel
              | Return vs \<Rightarrow>
                  Return (JObj (assign_all []
                    (zip (map fst (entries (getprop resolved ''properties''))) vs))))
           else Return (JObj []))
        else if truthy (getprop (getprop resolved ''oneOf'') ''0'') then
          generateExampleFromSchema n spec (getprop (getprop resolved ''oneOf'') ''0'')
        else if truthy (getprop (getprop resolved ''anyOf'') ''0'') then
          generateExampleFromSchema n spec (getprop (getprop resolved ''anyOf'') ''0'')
        else if truthy (getprop resolved ''allOf'') then
          (case getprop resolved ''allOf'' of
             JArr subSchemas \<Rightarrow>
               (case collect (map (generateExampleFromSchema n spec) subSchemas) of
                  Throw e \<Rightarrow> Throw e
                | OutOfFuel \<Rightarrow> OutOfFuel
                | Return examples \<Rightarrow> Return (JObj (foldl merge_example [] examples)))
           | _ \<Rightarrow> Throw TypeError)
        else Return JNull)"

section \<open>The interface types\<close>

text \<open>
  The functions that walk the path map and the tag list read the fields that
  \<^verbatim>\<open>src/types/openapi.ts\<close> declares, so they are modelled on records of those
  interfaces, with the fields the modelled functions read. A field of type
  \<^verbatim>\<open>any\<close> or \<^verbatim>\<open>OpenAPISchema\<close> holds a \<open>jsval\<close> (\<open>JUndefined\<close> when it is
  missing), another optional field an \<open>option\<close>, and a \<^verbatim>\<open>Record\<close> is the list of its
  entries in the order \<^verbatim>\<open>Object.entries\<close> gives them (the order of declaration: a
  path template starts with a slash and a media type has one inside, so no key is an
  array index). Field names carry a prefix, since several interfaces share
  \<^verbatim>\<open>name\<close>, \<^verbatim>\<open>description\<close> and \<^verbatim>\<open>parameters\<close>. An object of an interface type
  is truthy, so a test such as \<^verbatim>\<open>if (operation)\<close> asks whether the field is there.
\<close>

datatype HttpMethod = Get | Post | Put | Patch | Delete | Options | Head

datatype ParameterLocation = InQuery | InHeader | InPath | InCookie

record OpenAPITag =
  tag_name :: string
  tag_description :: "string option"

record OpenAPIParameter =
  param_name :: string
  param_in :: ParameterLocation
  param_schema :: jsval
  param_example :: jsval

record MediaType =
  media_schema :: jsval
  media_example :: jsval

record OpenAPIRequestBody =
  body_content :: "(string \<times> MediaType) list"

record OpenAPIOperation =
  op_operationId :: "string option"
  op_tags :: "string list option"
  op_parameters :: "OpenAPIParameter list option"
  op_requestBody :: "OpenAPIRequestBody option"

record OpenAPIPathItem =
  item_get :: "OpenAPIOperation option"
  item_post :: "OpenAPIOperation option"
  item_put :: "OpenAPIOperation option"
  item_patch :: "OpenAPIOperation option"
  item_delete :: "OpenAPIOperation option"
  item_options :: "OpenAPIOperation option"
  item_head :: "OpenAPIOperation option"
  item_parameters :: "OpenAPIParameter list option"

record OpenAPISpec =
  spec_tags :: "OpenAPITag list option"
  spec_paths :: "(string \<times> OpenAPIPathItem) list"

record ParsedEndpoint =
  ep_id :: string
  ep_path :: string
  ep_method :: HttpMethod
  ep_operation :: OpenAPIOperation
  ep_pathParameters :: "OpenAPIParameter list option"


section \<open>The spec loader\<close>

text \<open>
  \<^verbatim>\<open>
  export function parseOpenAPISpec(content: string): OpenAPISpec {
    let spec: OpenAPISpec;
    try {
      spec = JSON.parse(content);
    } catch {
      try {
        spec = yaml.load(content) as OpenAPISpec;
      } catch {
        throw new Error('Failed to parse spec. Please provide valid JSON or YAML.');
      }
    }
    if (!spec.openapi || !spec.paths) {
      throw new Error('Invalid OpenAPI spec. Missing required fields.');
    }
    return spec;
  }
  \<close>
  The two parsers are library functions and parameters of the model: \<open>None\<close> is a
  parser that throws. \<^verbatim>\<open>spec.openapi\<close> is a plain member access with no test before
  it: on null and undefined it throws a \<^verbatim>\<open>TypeError\<close>.
\<close>

definition member_access :: "jsval \<Rightarrow> string \<Rightarrow> jsval outcome" where
  "member_access v k = (if v = JNull \<or> v = JUndefined then Throw TypeError else Return (getprop v k))"

definition check_required :: "jsval \<Rightarrow> jsval outcome" where
  "check_required spec =
     (case member_access spec ''openapi'' of
        Throw e \<Rightarrow> Throw e
      | OutOfFuel \<Rightarrow> OutOfFuel
      | Return openapi \<Rightarrow>
          if \<not> truthy openapi then Throw (Error ''Invalid OpenAPI spec. Missing required fields.'')
          else (case member_access spec ''paths'' of
                  Throw e \<Rightarrow> Throw e
                | OutOfFuel \<Rightarrow> OutOfFuel
                | Return paths \<Rightarrow>
                    if \<not> truthy paths
                    then Throw (Error ''Invalid OpenAPI spec. Missing required fields.'')
                    else Return spec))"

definition parseOpenAPISpec ::
  "(string \<Rightarrow> jsval option) \<Rightarrow> (string \<Rightarrow> jsval option) \<Rightarrow> string \<Rightarrow> jsval outcome" where
  "parseOpenAPISpec JSON_parse yaml_load content =
     (case JSON_parse content of
        Some spec \<Rightarrow> check_required spec
      | None \<Rightarrow>
          (case yaml_load content of
             Some spec \<Rightarrow> check_required spec
           | None \<Rightarrow> Throw (Error ''Failed to parse spec. Please provide valid JSON or YAML.'')))"

section \<open>Endpoint extraction and tag grouping\<close>

definition HTTP_METHODS :: "HttpMethod list" where
  "HTTP_METHODS = [Get, Post, Put, Patch, Delete, Options, Head]"

text \<open>The string of a verb, as the union type \<^verbatim>\<open>HttpMethod\<close> spells it.\<close>

fun method_name :: "HttpMethod \<Rightarrow> string" where
  "method_name Get = ''get''"
| "method_name Post = ''post''"
| "method_name Put = ''put''"
| "method_name Patch = ''patch''"
| "method_name Delete = ''delete''"
| "method_name Options = ''options''"
| "method_name Head = ''head''"

text \<open>\<^verbatim>\<open>pathItem[method]\<close>\<close>

fun item_operation :: "OpenAPIPathItem \<Rightarrow> HttpMethod \<Rightarrow> OpenAPIOperation option" where
  "item_operation pathItem Get = item_get pathItem"
| "item_operation pathItem Post = item_post pathItem"
| "item_operation pathItem Put = item_put pathItem"
| "item_operation pathItem Patch = item_patch pathItem"
| "item_operation pathItem Delete = item_delete pathItem"
| "item_operation pathItem Options = item_options pathItem"
| "item_operation pathItem Head = item_head pathItem"

definition is_alnum :: "char \<Rightarrow> bool" where
  "is_alnum c =
     (c \<in> set ''abcdefghijklmnopqrstuvwxyzABCDEFGHIJKLMNOPQRSTUVWXYZ0123456789'')"

text \<open>\<^verbatim>\<open>s.replace(/[^a-zA-Z0-9]/g, '-')\<close>\<close>

definition replace_non_alnum :: "string \<Rightarrow> string" where
  "replace_non_alnum s = map (\<lambda>c. if is_alnum c then c else CHR ''-'') s"

text \<open>
  \<^verbatim>\<open>
  export function extractEndpoints(spec: OpenAPISpec): ParsedEndpoint[] {
    const endpoints: ParsedEndpoint[] = [];
    Object.entries(spec.paths).forEach(([path, pathItem]) => {
      HTTP_METHODS.forEach(method => {
        const operation = pathItem[method];
        if (operation) {
          endpoints.push({
            id: `${method}-${path}`.replace(/[^a-zA-Z0-9]/g, '-'),
            path, method, operation,
            pathParameters: pathItem.parameters,
          });
        }
      });
    });
    return endpoints;
  }
  \<close>
\<close>

definition endpoints_of_item :: "string \<Rightarrow> OpenAPIPathItem \<Rightarrow> ParsedEndpoint list" where
  "endpoints_of_item path pathItem =
     concat (map (\<lambda>method.
       (case item_operation pathItem method of
          Some operation \<Rightarrow>
            [\<lparr> ep_id = replace_non_alnum (method_name method @ ''-'' @ path),
               ep_path = path,
               ep_method = method,
               ep_operation = operation,
               ep_pathParameters = item_parameters pathItem \<rparr>]
        | None \<Rightarrow> [])) HTTP_METHODS)"

definition extractEndpoints :: "OpenAPISpec \<Rightarrow> ParsedEndpoint list" where
  "extractEndpoints spec =
     concat (map (\<lambda>entry. endpoints_of_item (fst entry) (snd entry)) (spec_paths spec))"






section \<open>Library functions of the code generators\<close>

text \<open>\<^verbatim>\<open>pieces.join(sep)\<close>\<close>

fun join :: "string \<Rightarrow> string list \<Rightarrow> string" where
  "join sep [] = []"
| "join sep [x] = x"
| "join sep (x # y # ys) = x @ sep @ join sep (y # ys)"

text \<open>\<^verbatim>\<open>String(v)\<close>: an array is its elements joined by commas, null and undefined
  elements as the empty string. The text of a finite number is what the runtime computes
  (plain digits, a fraction or the exponent form): the parameter \<open>number_text\<close>.\<close>

fun js_String :: "(rat \<Rightarrow> string) \<Rightarrow> jsval \<Rightarrow> string" where
  "js_String number_text JUndefined = ''undefined''"
| "js_String number_text JNull = ''null''"
| "js_String number_text (JBool b) = (if b then ''true'' else ''false'')"
| "js_String number_text (JNum n) = number_text n"
| "js_String number_text JNaN = ''NaN''"
| "js_String number_text (JInfinity negative) = (if negative then ''-Infinity'' else ''Infinity'')"
| "js_String number_text (JStr s) = s"
| "js_String number_text (JArr xs) =
     join '','' (map (\<lambda>x. if x = JNull \<or> x = JUndefined then [] else js_String number_text x) xs)"
| "js_String number_text (JObj kvs) = ''[object Object]''"

definition hex_upper :: "nat \<Rightarrow> string" where
  "hex_upper n = [''0123456789ABCDEF'' ! (n div 16), ''0123456789ABCDEF'' ! (n mod 16)]"

definition hex_lower :: "nat \<Rightarrow> string" where
  "hex_lower n = [''0123456789abcdef'' ! (n div 16), ''0123456789abcdef'' ! (n mod 16)]"

definition uri_unreserved :: "char \<Rightarrow> bool" where
  "uri_unreserved c = (is_alnum c \<or> c \<in> set ''-_.!~*()'' \<or> c = CHR 0x27)"

text \<open>\<^verbatim>\<open>encodeURIComponent\<close> on one code unit below 256: kept when unreserved, else the
  bytes of its UTF-8 form, each as a percent sign and two upper-case hexadecimal digits.\<close>

definition encode_unit :: "char \<Rightarrow> string" where
  "encode_unit c =
     (if uri_unreserved c then [c]
      else if (of_char c :: nat) < 128 then ''%'' @ hex_upper (of_char c)
      else ''%'' @ hex_upper (192 + of_char c div 64) @ ''%'' @ hex_upper (128 + of_char c mod 64))"

definition encodeURIComponent :: "string \<Rightarrow> string" where
  "encodeURIComponent s = concat (map encode_unit s)"

text \<open>The first occurrence of a pattern in a string: what precedes it and what follows it.\<close>

fun find_first :: "string \<Rightarrow> string \<Rightarrow> (string \<times> string) option" where
  "find_first pat [] = (if pat = [] then Some ([], []) else None)"
| "find_first pat (c # cs) =
     (if take (length pat) (c # cs) = pat then Some ([], drop (length pat) (c # cs))
      else (case find_first pat cs of
              Some (front, back) \<Rightarrow> Some (c # front, back)
            | None \<Rightarrow> None))"

text \<open>The replacement text of \<^verbatim>\<open>s.replace(pattern, replacement)\<close> for a string pattern:
  a dollar sign followed by a dollar sign, an ampersand, a backquote or a quote stands
  for a dollar sign, the match, the text that precedes it and the text that follows it.\<close>

fun substitution :: "string \<Rightarrow> string \<Rightarrow> string \<Rightarrow> string \<Rightarrow> string" where
  "substitution matched front back [] = []"
| "substitution matched front back [c] = [c]"
| "substitution matched front back (c # d # r) =
     (if c = CHR ''$'' \<and> d = CHR ''$'' then CHR ''$'' # substitution matched front back r
      else if c = CHR ''$'' \<and> d = CHR ''&'' then matched @ substitution matched front back r
      else if c = CHR ''$'' \<and> d = CHR 0x60 then front @ substitution matched front back r
      else if c = CHR ''$'' \<and> d = CHR 0x27 then back @ substitution matched front back r
      else c # substitution matched front back (d # r))"

definition js_replace :: "string \<Rightarrow> string \<Rightarrow> string \<Rightarrow> string" where
  "js_replace s pat replacement =
     (case find_first pat s of
        None \<Rightarrow> s
      | Some (front, back) \<Rightarrow> front @ substitution pat front back replacement @ back)"

definition upper_char :: "char \<Rightarrow> char" where
  "upper_char c =
     (case map_of (zip ''abcdefghijklmnopqrstuvwxyz'' ''ABCDEFGHIJKLMNOPQRSTUVWXYZ'') c of
        Some u \<Rightarrow> u | None \<Rightarrow> c)"

definition lower_char :: "char \<Rightarrow> char" where
  "lower_char c =
     (case map_of (zip ''ABCDEFGHIJKLMNOPQRSTUVWXYZ'' ''abcdefghijklmnopqrstuvwxyz'') c of
        Some l \<Rightarrow> l | None \<Rightarrow> c)"

text \<open>\<^verbatim>\<open>toUpperCase\<close> and \<^verbatim>\<open>toLowerCase\<close>, on the letters a to z.\<close>

definition toUpperCase :: "string \<Rightarrow> string" where
  "toUpperCase s = map upper_char s"

definition toLowerCase :: "string \<Rightarrow> string" where
  "toLowerCase s = map lower_char s"

text \<open>A string as \<^verbatim>\<open>JSON.stringify\<close> quotes it.\<close>

definition json_escape :: "char \<Rightarrow> string" where
  \<open>json_escape c =
     (if c = CHR 0x22 then [CHR 0x5C, CHR 0x22]
      else if c = CHR 0x5C then [CHR 0x5C, CHR 0x5C]
      else if c = CHR 0x08 then [CHR 0x5C, CHR ''b'']
      else if c = CHR 0x0C then [CHR 0x5C, CHR ''f'']
      else if c = CHR 0x0A then [CHR 0x5C, CHR ''n'']
      else if c = CHR 0x0D then [CHR 0x5C, CHR ''r'']
      else if c = CHR 0x09 then [CHR 0x5C, CHR ''t'']
      else if (of_char c :: nat) < 32 then [CHR 0x5C, CHR ''u'', CHR ''0'', CHR ''0''] @ hex_lower (of_char c)
      else [c])\<close>

definition json_quote :: "string \<Rightarrow> string" where
  "json_quote s = [CHR 0x22] @ concat (map json_escape s) @ [CHR 0x22]"

text \<open>
  \<^verbatim>\<open>JSON.stringify(v, null, gap)\<close> for a non-empty gap, at the indentation \<open>ind\<close>.
  A property whose value is undefined is left out, an undefined element of an array is
  written as null, and so are NaN and the infinities; a finite number is written as
  \<^verbatim>\<open>String\<close> prints it. (On undefined itself the function returns undefined; the
  generators call it on truthy values only.)
\<close>

fun json_text :: "(rat \<Rightarrow> string) \<Rightarrow> string \<Rightarrow> string \<Rightarrow> jsval \<Rightarrow> string" where
  "json_text number_text gap ind JUndefined = ''null''"
| "json_text number_text gap ind JNull = ''null''"
| "json_text number_text gap ind (JBool b) = (if b then ''true'' else ''false'')"
| "json_text number_text gap ind (JNum n) = number_text n"
| "json_text number_text gap ind JNaN = ''null''"
| "json_text number_text gap ind (JInfinity negative) = ''null''"
| "json_text number_text gap ind (JStr s) = json_quote s"
| "json_text number_text gap ind (JArr xs) =
     (if xs = [] then ''[]''
      else ''['' @ ''\<newline>'' @ ind @ gap
           @ join ('','' @ ''\<newline>'' @ ind @ gap) (map (json_text number_text gap (ind @ gap)) xs)
           @ ''\<newline>'' @ ind @ '']'')"
| "json_text number_text gap ind (JObj kvs) =
     (if filter (\<lambda>kv. snd kv \<noteq> JUndefined) kvs = [] then ''{}''
      else ''{'' @ ''\<newline>'' @ ind @ gap
           @ join ('','' @ ''\<newline>'' @ ind @ gap)
               (map (\<lambda>kv. json_quote (fst kv) @ '': '' @ json_text number_text gap (ind @ gap) (snd kv))
                  (filter (\<lambda>kv. snd kv \<noteq> JUndefined) kvs))
           @ ''\<newline>'' @ ind @ ''}'')"

definition JSON_stringify :: "(rat \<Rightarrow> string) \<Rightarrow> jsval \<Rightarrow> nat \<Rightarrow> string" where
  "JSON_stringify number_text v indent = json_text number_text (replicate indent CHR '' '') [] v"

section \<open>The code generators\<close>

datatype CodeLanguage = Curl | JavaScript | Python | Go

record GeneratorOptions =
  opt_baseUrl :: string
  opt_headers :: "(string \<times> string) list option"
  opt_authToken :: "string option"

text \<open>
  \<^verbatim>\<open>
  function getRequestBody(spec: OpenAPISpec, endpoint: ParsedEndpoint): any {
    const content = endpoint.operation.requestBody?.content;
    if (!content) return null;
    const jsonContent = content['application/json'];
    if (jsonContent?.example) return jsonContent.example;
    if (jsonContent?.schema) {
      return generateExampleFromSchema(spec, jsonContent.schema);
    }
    return null;
  }
  \<close>
\<close>

definition getRequestBody :: "nat \<Rightarrow> jsval \<Rightarrow> ParsedEndpoint \<Rightarrow> jsval outcome" where
  "getRequestBody fuel spec endpoint =
     (case op_requestBody (ep_operation endpoint) of
        None \<Rightarrow> Return JNull
      | Some requestBody \<Rightarrow>
          (case map_of (body_content requestBody) ''application/json'' of
             None \<Rightarrow> Return JNull
           | Some jsonContent \<Rightarrow>
               if truthy (media_example jsonContent) then Return (media_example jsonContent)
               else if truthy (media_schema jsonContent)
                 then generateExampleFromSchema fuel spec (media_schema jsonContent)
               else Return JNull))"

text \<open>\<^verbatim>\<open>param.example || param.schema?.example || fallback\<close>, for a non-empty string
  \<^verbatim>\<open>fallback\<close>\<close>

definition example_or :: "OpenAPIParameter \<Rightarrow> string \<Rightarrow> jsval" where
  "example_or param fallback =
     (if truthy (param_example param) then param_example param
      else if truthy (getprop (param_schema param) ''example'')
        then getprop (param_schema param) ''example''
      else JStr fallback)"

text \<open>
  \<^verbatim>\<open>
  function buildUrl(baseUrl: string, path: string, params?: OpenAPIParameter[]): string {
    let url = `${baseUrl}${path}`;
    const pathParams = params?.filter(p => p.in === 'path') || [];
    pathParams.forEach(param => {
      const example = param.example || param.schema?.example || `{${param.name}}`;
      url = url.replace(`{${param.name}}`, String(example));
    });
    return url;
  }
  \<close>
\<close>

definition buildUrl :: "(rat \<Rightarrow> string) \<Rightarrow> string \<Rightarrow> string \<Rightarrow> OpenAPIParameter list option \<Rightarrow> string" where
  "buildUrl number_text baseUrl path params =
     foldl (\<lambda>url param.
              js_replace url (''{'' @ param_name param @ ''}'')
                (js_String number_text (example_or param (''{'' @ param_name param @ ''}''))))
       (baseUrl @ path)
       (case params of Some ps \<Rightarrow> filter (\<lambda>p. param_in p = InPath) ps | None \<Rightarrow> [])"

text \<open>
  \<^verbatim>\<open>
  function buildQueryString(params?: OpenAPIParameter[]): string {
    const queryParams = params?.filter(p => p.in === 'query') || [];
    if (queryParams.length === 0) return '';
    const pairs = queryParams.map(p => {
      const value = p.example || p.schema?.example || 'value';
      return `${p.name}=${encodeURIComponent(String(value))}`;
    });
    return '?' + pairs.join('&');
  }
  \<close>
\<close>

definition queryParams :: "OpenAPIParameter list option \<Rightarrow> OpenAPIParameter list" where
  "queryParams params =
     (case params of Some ps \<Rightarrow> filter (\<lambda>p. param_in p = InQuery) ps | None \<Rightarrow> [])"

definition query_pair :: "(rat \<Rightarrow> string) \<Rightarrow> OpenAPIParameter \<Rightarrow> string" where
  "query_pair number_text p =
     param_name p @ ''='' @ encodeURIComponent (js_String number_text (example_or p ''value''))"

definition buildQueryString :: "(rat \<Rightarrow> string) \<Rightarrow> OpenAPIParameter list option \<Rightarrow> string" where
  "buildQueryString number_text params =
     (if length (queryParams params) = 0 then []
      else ''?'' @ join ''&'' (map (query_pair number_text) (queryParams params)))"

text \<open>The first lines of every generator:
  \<^verbatim>\<open>
  const allParams = [...(endpoint.pathParameters || []), ...(endpoint.operation.parameters || [])];
  const url = buildUrl(options.baseUrl, endpoint.path, allParams) + buildQueryString(allParams);
  \<close>\<close>

definition allParams :: "ParsedEndpoint \<Rightarrow> OpenAPIParameter list" where
  "allParams endpoint =
     (case ep_pathParameters endpoint of Some ps \<Rightarrow> ps | None \<Rightarrow> [])
     @ (case op_parameters (ep_operation endpoint) of Some ps \<Rightarrow> ps | None \<Rightarrow> [])"

definition request_url :: "(rat \<Rightarrow> string) \<Rightarrow> ParsedEndpoint \<Rightarrow> GeneratorOptions \<Rightarrow> string" where
  "request_url number_text endpoint options =
     buildUrl number_text (opt_baseUrl options) (ep_path endpoint) (Some (allParams endpoint))
     @ buildQueryString number_text (Some (allParams endpoint))"

text \<open>
  \<^verbatim>\<open>
  const headers: Record<string, string> = {
    'Content-Type': 'application/json',
    ...options.headers,
  };
  if (options.authToken) {
    headers['Authorization'] = `Bearer ${options.authToken}`;
  }
  \<close>\<close>

definition request_headers :: "GeneratorOptions \<Rightarrow> (string \<times> string) list" where
  "request_headers options =
     (let headers = spread_all [(''Content-Type'', ''application/json'')]
                      (case opt_headers options of Some hs \<Rightarrow> hs | None \<Rightarrow> [])
      in case opt_authToken options of
           Some token \<Rightarrow>
             (if token \<noteq> [] then set_prop headers ''Authorization'' (''Bearer '' @ token)
              else headers)
         | None \<Rightarrow> headers)"

definition headers_object :: "(string \<times> string) list \<Rightarrow> jsval" where
  "headers_object headers = JObj (map (\<lambda>kv. (fst kv, JStr (snd kv))) headers)"

text \<open>\<^verbatim>\<open>text.split('\n').join('\n  ')\<close>\<close>

definition indent_lines :: "string \<Rightarrow> string" where
  "indent_lines t = join (''\<newline>'' @ ''  '') (split_on CHR 0x0A t)"

text \<open>
  \<^verbatim>\<open>generateCurl\<close>, once the body has been computed:
  \<^verbatim>\<open>
  let cmd = `curl -X ${method} "${url}"`;
  Object.entries(headers).forEach(([key, value]) => {
    cmd += ` \\\n  -H "${key}: ${value}"`;
  });
  if (body && ['POST', 'PUT', 'PATCH'].includes(method)) {
    cmd += ` \\\n  -d '${JSON.stringify(body, null, 2)}'`;
  }
  return cmd;
  \<close>
  with \<^verbatim>\<open>method = endpoint.method.toUpperCase()\<close>.
\<close>

definition curl_text ::
  "(rat \<Rightarrow> string) \<Rightarrow> ParsedEndpoint \<Rightarrow> GeneratorOptions \<Rightarrow> jsval \<Rightarrow> string" where
  \<open>curl_text number_text endpoint options body =
     ''curl -X '' @ toUpperCase (method_name (ep_method endpoint))
       @ '' "'' @ request_url number_text endpoint options @ ''"''
       @ concat (map (\<lambda>kv. '' '' @ [CHR 0x5C] @ ''\<newline>'' @ ''  -H "'' @ fst kv @ '': '' @ snd kv @ ''"'')
                   (request_headers options))
       @ (if truthy body
             \<and> toUpperCase (method_name (ep_method endpoint)) \<in> set [''POST'', ''PUT'', ''PATCH'']
          then '' '' @ [CHR 0x5C] @ ''\<newline>'' @ ''  -d '' @ [CHR 0x27] @ JSON_stringify number_text body 2 @ [CHR 0x27]
          else [])\<close>

text \<open>
  \<^verbatim>\<open>generateJavaScript\<close>:
  \<^verbatim>\<open>
  let code = `const response = await fetch("${url}", {
    method: "${method}",
    headers: ${JSON.stringify(headers, null, 4).split('\n').join('\n  ')},`;
  if (body && ['POST', 'PUT', 'PATCH'].includes(method)) {
    code += `\n  body: JSON.stringify(${JSON.stringify(body, null, 4).split('\n').join('\n  ')}),`;
  }
  code += `
  });

  const data = await response.json();
  console.log(data);`;
  \<close>
  (the lines of the two template literals start in column 0 or 2 in the source).
\<close>

definition javascript_text ::
  "(rat \<Rightarrow> string) \<Rightarrow> ParsedEndpoint \<Rightarrow> GeneratorOptions \<Rightarrow> jsval \<Rightarrow> string" where
  \<open>javascript_text number_text endpoint options body =
     ''const response = await fetch("'' @ request_url number_text endpoint options @ ''", {'' @ ''\<newline>''
       @ ''  method: "'' @ toUpperCase (method_name (ep_method endpoint)) @ ''",'' @ ''\<newline>''
       @ ''  headers: '' @ indent_lines (JSON_stringify number_text (headers_object (request_headers options)) 4)
       @ '',''
       @ (if truthy body
             \<and> toUpperCase (method_name (ep_method endpoint)) \<in> set [''POST'', ''PUT'', ''PATCH'']
          then ''\<newline>'' @ ''  body: JSON.stringify('' @ indent_lines (JSON_stringify number_text body 4) @ ''),''
          else [])
       @ ''\<newline>'' @ ''});'' @ ''\<newline>'' @ ''\<newline>''
       @ ''const data = await response.json();'' @ ''\<newline>''
       @ ''console.log(data);''\<close>

text \<open>
  \<^verbatim>\<open>generatePython\<close>, with \<^verbatim>\<open>method = endpoint.method.toLowerCase()\<close>:
  \<^verbatim>\<open>
  let code = `import requests

  url = "${url}"
  headers = ${JSON.stringify(headers, null, 4)}
  `;
  if (body && ['post', 'put', 'patch'].includes(method)) {
    code += `payload = ${JSON.stringify(body, null, 4)}

  response = requests.${method}(url, headers=headers, json=payload)`;
  } else {
    code += `
  response = requests.${method}(url, headers=headers)`;
  }
  code += `

  print(response.json())`;
  \<close>
  (the lines of the template literals start in column 0 in the source).
\<close>

definition python_text ::
  "(rat \<Rightarrow> string) \<Rightarrow> ParsedEndpoint \<Rightarrow> GeneratorOptions \<Rightarrow> jsval \<Rightarrow> string" where
  \<open>python_text number_text endpoint options body =
     ''import requests'' @ ''\<newline>'' @ ''\<newline>''
       @ ''url = "'' @ request_url number_text endpoint options @ ''"'' @ ''\<newline>''
       @ ''headers = '' @ JSON_stringify number_text (headers_object (request_headers options)) 4 @ ''\<newline>''
       @ (if truthy body
             \<and> toLowerCase (method_name (ep_method endpoint)) \<in> set [''post'', ''put'', ''patch'']
          then ''payload = '' @ JSON_stringify number_text body 4 @ ''\<newline>'' @ ''\<newline>''
               @ ''response = requests.'' @ toLowerCase (method_name (ep_method endpoint))
               @ ''(url, headers=headers, json=payload)''
          else ''\<newline>'' @ ''response = requests.'' @ toLowerCase (method_name (ep_method endpoint))
               @ ''(url, headers=headers)'')
       @ ''\<newline>'' @ ''\<newline>'' @ ''print(response.json())''\<close>

text \<open>
  \<^verbatim>\<open>generateGo\<close>, with \<^verbatim>\<open>method = endpoint.method.toUpperCase()\<close>: the variable
  \<^verbatim>\<open>bodyCode\<close> is
  \<^verbatim>\<open>
      payload := []byte(`${JSON.stringify(body, null, 2)}`)
      req, err := http.NewRequest("${method}", url, bytes.NewBuffer(payload))
  \<close>
  following a line break when \<^verbatim>\<open>body && ['POST', 'PUT', 'PATCH'].includes(method)\<close>, and else
  \<^verbatim>\<open>
      req, err := http.NewRequest("${method}", url, nil)
  \<close>
  following a line break; \<^verbatim>\<open>headersCode\<close> is one line
  \<^verbatim>\<open>    req.Header.Set("${key}", "${value}")\<close> for each header, joined by line breaks.
\<close>

definition go_bodyCode :: "(rat \<Rightarrow> string) \<Rightarrow> ParsedEndpoint \<Rightarrow> jsval \<Rightarrow> string" where
  \<open>go_bodyCode number_text endpoint body =
     (if truthy body
         \<and> toUpperCase (method_name (ep_method endpoint)) \<in> set [''POST'', ''PUT'', ''PATCH'']
      then ''\<newline>'' @ ''    payload := []byte(`'' @ JSON_stringify number_text body 2 @ ''`)'' @ ''\<newline>''
           @ ''    req, err := http.NewRequest("'' @ toUpperCase (method_name (ep_method endpoint))
           @ ''", url, bytes.NewBuffer(payload))''
      else ''\<newline>'' @ ''    req, err := http.NewRequest("''
           @ toUpperCase (method_name (ep_method endpoint)) @ ''", url, nil)'')\<close>

definition go_headersCode :: "GeneratorOptions \<Rightarrow> string" where
  \<open>go_headersCode options =
     join ''\<newline>''
       (map (\<lambda>kv. ''    req.Header.Set("'' @ fst kv @ ''", "'' @ snd kv @ ''")'')
          (request_headers options))\<close>

definition go_text ::
  "(rat \<Rightarrow> string) \<Rightarrow> ParsedEndpoint \<Rightarrow> GeneratorOptions \<Rightarrow> jsval \<Rightarrow> string" where
  \<open>go_text number_text endpoint options body =
     ''package main'' @ ''\<newline>'' @ ''\<newline>''
       @ ''import ('' @ ''\<newline>''
       @ ''    "bytes"'' @ ''\<newline>''
       @ ''    "fmt"'' @ ''\<newline>''
       @ ''    "io"'' @ ''\<newline>''
       @ ''    "net/http"'' @ ''\<newline>''
       @ '')'' @ ''\<newline>'' @ ''\<newline>''
       @ ''func main() {'' @ ''\<newline>''
       @ ''    url := "'' @ request_url number_text endpoint options @ ''"'' @ ''\<newline>''
       @ go_bodyCode number_text endpoint body @ ''\<newline>''
       @ ''    if err != nil {'' @ ''\<newline>''
       @ ''        panic(err)'' @ ''\<newline>''
       @ ''    }'' @ ''\<newline>'' @ ''\<newline>''
       @ go_headersCode options @ ''\<newline>'' @ ''\<newline>''
       @ ''    client := &http.Client{}'' @ ''\<newline>''
       @ ''    resp, err := client.Do(req)'' @ ''\<newline>''
       @ ''    if err != nil {'' @ ''\<newline>''
       @ ''        panic(err)'' @ ''\<newline>''
       @ ''    }'' @ ''\<newline>''
       @ ''    defer resp.Body.Close()'' @ ''\<newline>'' @ ''\<newline>''
       @ ''    body, _ := io.ReadAll(resp.Body)'' @ ''\<newline>''
       @ ''    fmt.Println(string(body))'' @ ''\<newline>''
       @ ''}''\<close>

text \<open>Every generator computes the body with \<^verbatim>\<open>getRequestBody\<close> first, then builds its
  text, so it returns a text only when that call returns.\<close>

definition with_body ::
  "(jsval \<Rightarrow> string) \<Rightarrow> nat \<Rightarrow> jsval \<Rightarrow> ParsedEndpoint \<Rightarrow> string outcome" where
  "with_body text fuel spec endpoint =
     (case getRequestBody fuel spec endpoint of
        Return body \<Rightarrow> Return (text body)
      | Throw e \<Rightarrow> Throw e
      | OutOfFuel \<Rightarrow> OutOfFuel)"

definition generateCurl ::
  "(rat \<Rightarrow> string) \<Rightarrow> nat \<Rightarrow> jsval \<Rightarrow> ParsedEndpoint \<Rightarrow> GeneratorOptions \<Rightarrow> string outcome" where
  "generateCurl number_text fuel spec endpoint options =
     with_body (curl_text number_text endpoint options) fuel spec endpoint"

definition generateJavaScript ::
  "(rat \<Rightarrow> string) \<Rightarrow> nat \<Rightarrow> jsval \<Rightarrow> ParsedEndpoint \<Rightarrow> GeneratorOptions \<Rightarrow> string outcome" where
  "generateJavaScript number_text fuel spec endpoint options =
     with_body (javascript_text number_text endpoint options) fuel spec endpoint"

definition generatePython ::
  "(rat \<Rightarrow> string) \<Rightarrow> nat \<Rightarrow> jsval \<Rightarrow> ParsedEndpoint \<Rightarrow> GeneratorOptions \<Rightarrow> string outcome" where
  "generatePython number_text fuel spec endpoint options =
     with_body (python_text number_text endpoint options) fuel spec endpoint"

definition generateGo ::
  "(rat \<Rightarrow> string) \<Rightarrow> nat \<Rightarrow> jsval \<Rightarrow> ParsedEndpoint \<Rightarrow> GeneratorOptions \<Rightarrow> string outcome" where
  "generateGo number_text fuel spec endpoint options =
     with_body (go_text number_text endpoint options) fuel spec endpoint"

text \<open>\<^verbatim>\<open>generateCode\<close>: the \<^verbatim>\<open>default\<close> branch of its \<^verbatim>\<open>switch\<close> is outside the type
  \<^verbatim>\<open>CodeLanguage\<close>.\<close>

fun generateCode ::
  "(rat \<Rightarrow> string) \<Rightarrow> nat \<Rightarrow> CodeLanguage \<Rightarrow> jsval \<Rightarrow> ParsedEndpoint \<Rightarrow> GeneratorOptions \<Rightarrow> string outcome" where
  "generateCode number_text fuel Curl spec endpoint options =
     generateCurl number_text fuel spec endpoint options"
| "generateCode number_text fuel JavaScript spec endpoint options =
     generateJavaScript number_text fuel spec endpoint options"
| "generateCode number_text fuel Python spec endpoint options =
     generatePython number_text fuel spec endpoint options"
| "generateCode number_text fuel Go spec endpoint options =
     generateGo number_text fuel spec endpoint options"

section \<open>The behaviour in declarative form\<close>





text \<open>The parameters that the specification text lets into the query string: those
  with an example or a default value, on the parameter or on its schema.\<close>

definition has_example_or_default :: "OpenAPIParameter \<Rightarrow> bool" where
  "has_example_or_default p =
     (param_example p \<noteq> JUndefined
      \<or> getprop (param_schema p) ''example'' \<noteq> JUndefined
      \<or> getprop (param_schema p) ''default'' \<noteq> JUndefined)"

text \<open>
  A request that carries no body, written in each of the four conventions: the text is
  made of the verb, the URL and the headers, and of nothing else.
\<close>

fun request_without_body ::
  "(rat \<Rightarrow> string) \<Rightarrow> CodeLanguage \<Rightarrow> HttpMethod \<Rightarrow> string \<Rightarrow> (string \<times> string) list \<Rightarrow> string" where
  \<open>request_without_body number_text Curl method url headers =
     ''curl -X '' @ toUpperCase (method_name method) @ '' "'' @ url @ ''"''
       @ concat (map (\<lambda>kv. '' '' @ [CHR 0x5C] @ ''\<newline>'' @ ''  -H "'' @ fst kv @ '': '' @ snd kv @ ''"'')
                   headers)\<close>
| \<open>request_without_body number_text JavaScript method url headers =
     ''const response = await fetch("'' @ url @ ''", {'' @ ''\<newline>''
       @ ''  method: "'' @ toUpperCase (method_name method) @ ''",'' @ ''\<newline>''
       @ ''  headers: '' @ indent_lines (JSON_stringify number_text (headers_object headers) 4) @ '',''
       @ ''\<newline>'' @ ''});'' @ ''\<newline>'' @ ''\<newline>''
       @ ''const data = await response.json();'' @ ''\<newline>''
       @ ''console.log(data);''\<close>
| \<open>request_without_body number_text Python method url headers =
     ''import requests'' @ ''\<newline>'' @ ''\<newline>''
       @ ''url = "'' @ url @ ''"'' @ ''\<newline>''
       @ ''headers = '' @ JSON_stringify number_text (headers_object headers) 4 @ ''\<newline>''
       @ ''\<newline>'' @ ''response = requests.'' @ toLowerCase (method_name method)
       @ ''(url, headers=headers)''
       @ ''\<newline>'' @ ''\<newline>'' @ ''print(response.json())''\<close>
| \<open>request_without_body number_text Go method url headers =
     ''package main'' @ ''\<newline>'' @ ''\<newline>''
       @ ''import ('' @ ''\<newline>''
       @ ''    "bytes"'' @ ''\<newline>''
       @ ''    "fmt"'' @ ''\<newline>''
       @ ''    "io"'' @ ''\<newline>''
       @ ''    "net/http"'' @ ''\<newline>''
       @ '')'' @ ''\<newline>'' @ ''\<newline>''
       @ ''func main() {'' @ ''\<newline>''
       @ ''    url := "'' @ url @ ''"'' @ ''\<newline>''
       @ ''\<newline>'' @ ''    req, err := http.NewRequest("'' @ toUpperCase (method_name method)
       @ ''", url, nil)'' @ ''\<newline>''
       @ ''    if err != nil {'' @ ''\<newline>''
       @ ''        panic(err)'' @ ''\<newline>''
       @ ''    }'' @ ''\<newline>'' @ ''\<newline>''
       @ join ''\<newline>''
           (map (\<lambda>kv. ''    req.Header.Set("'' @ fst kv @ ''", "'' @ snd kv @ ''")'') headers)
       @ ''\<newline>'' @ ''\<newline>''
       @ ''    client := &http.Client{}'' @ ''\<newline>''
       @ ''    resp, err := client.Do(req)'' @ ''\<newline>''
       @ ''    if err != nil {'' @ ''\<newline>''
       @ ''        panic(err)'' @ ''\<newline>''
       @ ''    }'' @ ''\<newline>''
       @ ''    defer resp.Body.Close()'' @ ''\<newline>'' @ ''\<newline>''
       @ ''    body, _ := io.ReadAll(resp.Body)'' @ ''\<newline>''
       @ ''    fmt.Println(string(body))'' @ ''\<newline>''
       @ ''}''\<close>

text \<open>The part that the command-line convention adds for a body.\<close>

definition curl_body_part :: "(rat \<Rightarrow> string) \<Rightarrow> jsval \<Rightarrow> string" where
  "curl_body_part number_text body =
     '' '' @ [CHR 0x5C] @ ''\<newline>'' @ ''  -d '' @ [CHR 0x27] @ JSON_stringify number_text body 2 @ [CHR 0x27]"

section \<open>Sample documents\<close>

text \<open>A document whose schema \<^verbatim>\<open>Pet\<close> refers to \<^verbatim>\<open>Animal\<close>, which carries an
  example, and a reference node for \<^verbatim>\<open>Pet\<close>.\<close>

definition sample_animal :: jsval where
  "sample_animal = JObj [(''type'', JStr ''object''), (''example'', JNum 0)]"

definition sample_document :: jsval where
  "sample_document =
     JObj [(''openapi'', JStr ''3.0.3''),
           (''paths'', JObj []),
           (''components'', JObj [(''schemas'', JObj
              [(''Pet'', JObj [(''$ref'', JStr ''#/components/schemas/Animal'')]),
               (''Animal'', sample_animal),
               (''Limit'', JNum 0)])])]"

definition sample_pet_ref :: jsval where
  "sample_pet_ref = JObj [(''$ref'', JStr ''#/components/schemas/Pet'')]"

text \<open>A number printer for the samples: it prints the natural numbers below
  \<open>10\<^sup>2\<^sup>1\<close> in plain digits, as the runtime does, and stands for the runtime only
  there (elsewhere it gives the empty text, and no sample asks it to).\<close>

definition sample_number_text :: "rat \<Rightarrow> string" where
  "sample_number_text r =
     (if r = of_int \<lfloor>r\<rfloor> \<and> 0 \<le> r \<and> r < 10 ^ 21 then decimal (nat \<lfloor>r\<rfloor>) else [])"

text \<open>A schema with a default and no example.\<close>

definition sample_limit :: jsval where
  "sample_limit = JObj [(''type'', JStr ''integer''), (''default'', JNum 20)]"

text \<open>The document of the extraction example: \<^verbatim>\<open>/a\<close> with get and post,
  \<^verbatim>\<open>/b\<close> with get.\<close>

definition sample_operation :: "string \<Rightarrow> OpenAPIOperation" where
  "sample_operation name =
     \<lparr> op_operationId = Some name, op_tags = None, op_parameters = None, op_requestBody = None \<rparr>"

definition empty_item :: OpenAPIPathItem where
  "empty_item =
     \<lparr> item_get = None, item_post = None, item_put = None, item_patch = None,
       item_delete = None, item_options = None, item_head = None, item_parameters = None \<rparr>"

definition sample_paths :: OpenAPISpec where
  "sample_paths =
     \<lparr> spec_tags = None,
       spec_paths =
         [(''/a'', empty_item\<lparr> item_get := Some (sample_operation ''listA''),
                                 item_post := Some (sample_operation ''createA'') \<rparr>),
          (''/b'', empty_item\<lparr> item_get := Some (sample_operation ''listB'') \<rparr>)] \<rparr>"

text \<open>A parser that accepts the text \<^verbatim>\<open>null\<close>, as \<^verbatim>\<open>JSON.parse\<close> does, and nothing else.\<close>

definition null_parser :: "string \<Rightarrow> jsval option" where
  "null_parser content = (if content = ''null'' then Some JNull else None)"

text \<open>Two query parameters, one without any example and one with an example that
  needs encoding.\<close>

definition sample_limit_param :: OpenAPIParameter where
  "sample_limit_param =
     \<lparr> param_name = ''limit'', param_in = InQuery,
       param_schema = JObj [(''type'', JStr ''integer'')], param_example = JUndefined \<rparr>"

definition sample_status_param :: OpenAPIParameter where
  "sample_status_param =
     \<lparr> param_name = ''status'', param_in = InQuery,
       param_schema = JObj [(''type'', JStr ''string'')], param_example = JStr ''on hold'' \<rparr>"


definition sample_endpoint :: "string \<Rightarrow> HttpMethod \<Rightarrow> string list option \<Rightarrow> ParsedEndpoint" where
  "sample_endpoint path method tags =
     \<lparr> ep_id = replace_non_alnum (method_name method @ ''-'' @ path),
       ep_path = path,
       ep_method = method,
       ep_operation = (sample_operation path)\<lparr> op_tags := tags \<rparr>,
       ep_pathParameters = None \<rparr>"


text \<open>An endpoint whose operation has a tag list that is empty.\<close>

definition sample_empty_tags_endpoint :: ParsedEndpoint where
  "sample_empty_tags_endpoint = sample_endpoint ''/ping'' Get (Some [])"

text \<open>A read endpoint that declares a request body schema all the same, with a path
  parameter that has an example, and the same endpoint as a create endpoint.\<close>

definition sample_body_operation :: OpenAPIOperation where
  "sample_body_operation =
     \<lparr> op_operationId = Some ''getPet'',
       op_tags = None,
       op_parameters = Some [\<lparr> param_name = ''petId'', param_in = InPath,
                                 param_schema = JObj [(''type'', JStr ''integer'')],
                                 param_example = JNum 123 \<rparr>],
       op_requestBody = Some \<lparr> body_content =
         [(''application/json'',
           \<lparr> media_schema = JObj [(''type'', JStr ''object''),
                                   (''properties'', JObj [(''name'', JObj [(''type'', JStr ''string'')])])],
             media_example = JUndefined \<rparr>)] \<rparr> \<rparr>"

definition sample_body_endpoint :: "HttpMethod \<Rightarrow> ParsedEndpoint" where
  "sample_body_endpoint method =
     \<lparr> ep_id = replace_non_alnum (method_name method @ ''-'' @ ''/pets/{petId}''),
       ep_path = ''/pets/{petId}'',
       ep_method = method,
       ep_operation = sample_body_operation,
       ep_pathParameters = None \<rparr>"

definition sample_options :: GeneratorOptions where
  "sample_options =
     \<lparr> opt_baseUrl = ''https://api.example.com'', opt_headers = None, opt_authToken = None \<rparr>"

section \<open>Properties of reference resolution\<close>

lemma walk_falsy_step:
  "\<not> truthy (getprop (walk current ps) p) \<Longrightarrow> walk current (ps @ p # rest) = JUndefined"
proof (induction ps arbitrary: current)
  case Nil
  then show ?case by simp
next
  case (Cons q qs)
  show ?case
  proof (cases "truthy (getprop current q)")
    case True
    with Cons show ?thesis by simp
  next
    case False
    then show ?thesis by simp
  qed
qed

text \<open>What \<open>resolveSchema\<close> returns is undefined or a truthy node whose \<^verbatim>\<open>$ref\<close> is not
  truthy.\<close>

lemma resolveSchema_result:
  "resolveSchema n spec node = Return r \<Longrightarrow>
     r = JUndefined \<or> (truthy r \<and> \<not> truthy (getprop r ''$ref''))"
proof (induction n arbitrary: node)
  case 0
  then show ?case by simp
next
  case (Suc n)
  then show ?case
    by (auto split: if_splits jsval.splits)
qed

lemma resolveSchema_truthy_arg:
  "resolveSchema n spec node = Return r \<Longrightarrow> r \<noteq> JUndefined \<Longrightarrow> truthy node"
  by (cases n) (auto split: if_splits)

text \<open>More fuel does not change a result.\<close>

lemma resolveSchema_mono:
  "resolveSchema n spec node = Return r \<Longrightarrow> resolveSchema (n + k) spec node = Return r"
proof (induction n arbitrary: node)
  case 0
  then show ?case by simp
next
  case (Suc n)
  then show ?case
    by (auto split: if_splits jsval.splits)
qed

lemma sample_pet_resolves:
  "resolveSchema 3 sample_document sample_pet_ref = Return sample_animal"
  by (simp add: sample_document_def sample_pet_ref_def sample_animal_def resolveRef_def
      ref_parts_def numeral_3_eq_3)

text \<open>
  Claim C7. A node that is truthy (every object is) and has no \<^verbatim>\<open>$ref\<close> property is
  returned as it is, with any fuel but none. Hence resolution is idempotent: when the
  resolution of a node returns a result that is present (not undefined), resolving that
  result returns it again.
\<close>

theorem resolveSchema_identity_and_idempotent:
  "(truthy node \<longrightarrow> getprop node ''$ref'' = JUndefined \<longrightarrow>
      resolveSchema (Suc n) spec node = Return node)
   \<and> (resolveSchema n spec node = Return r \<longrightarrow> r \<noteq> JUndefined \<longrightarrow>
      resolveSchema (Suc m) spec r = Return r)"
proof (intro conjI impI)
  assume "truthy node" and "getprop node ''$ref'' = JUndefined"
  then show "resolveSchema (Suc n) spec node = Return node" by simp
next
  assume "resolveSchema n spec node = Return r" and "r \<noteq> JUndefined"
  then have "truthy r \<and> \<not> truthy (getprop r ''$ref'')"
    using resolveSchema_result by blast
  then show "resolveSchema (Suc m) spec r = Return r" by simp
qed

theorem resolveSchema_identity_and_idempotent_witness:
  "truthy sample_animal \<and> getprop sample_animal ''$ref'' = JUndefined
   \<and> resolveSchema (Suc 0) sample_document sample_animal = Return sample_animal
   \<and> resolveSchema 3 sample_document sample_pet_ref = Return sample_animal
   \<and> sample_animal \<noteq> JUndefined
   \<and> resolveSchema (Suc 2) sample_document sample_animal = Return sample_animal"
proof -
  have 1: "truthy sample_animal" and 2: "getprop sample_animal ''$ref'' = JUndefined"
    and 3: "sample_animal \<noteq> JUndefined"
    by (simp_all add: sample_animal_def)
  from resolveSchema_identity_and_idempotent [of sample_animal 0 sample_document] 1 2
  have "resolveSchema (Suc 0) sample_document sample_animal = Return sample_animal" by blast
  moreover from resolveSchema_identity_and_idempotent
    [of sample_pet_ref 3 sample_document sample_animal 2] sample_pet_resolves 3
  have "resolveSchema (Suc 2) sample_document sample_animal = Return sample_animal" by blast
  ultimately show ?thesis using 1 2 3 sample_pet_resolves by blast
qed

text \<open>A reference string that does not start with \<^verbatim>\<open>#/\<close> resolves to undefined.\<close>

lemma resolveRef_without_prefix:
  "take 2 ref \<noteq> ''#/'' \<Longrightarrow> resolveRef spec ref = JUndefined"
  by (simp add: resolveRef_def)

text \<open>
  Claim C10. When the value reached at some segment of the reference string is falsy
  (null, false, 0, the empty string or NaN), \<open>resolveRef\<close> returns undefined, although
  the property exists at that segment. The witness is a reference to a schema entry whose
  value is the number 0.
\<close>

theorem resolveRef_falsy_value:
  "ref_parts ref = ps @ p # rest \<Longrightarrow>
   getprop (walk spec ps) p \<in> {JNull, JBool False, JNum 0, JStr [], JNaN} \<Longrightarrow>
   resolveRef spec ref = JUndefined"
proof -
  assume parts: "ref_parts ref = ps @ p # rest"
    and falsy: "getprop (walk spec ps) p \<in> {JNull, JBool False, JNum 0, JStr [], JNaN}"
  from falsy have "\<not> truthy (getprop (walk spec ps) p)" by auto
  then have "walk spec (ps @ p # rest) = JUndefined" by (rule walk_falsy_step)
  with parts show ?thesis by (simp add: resolveRef_def)
qed

theorem resolveRef_falsy_value_witness:
  "ref_parts ''#/components/schemas/Limit'' = [''components'', ''schemas''] @ ''Limit'' # []
   \<and> getprop (walk sample_document [''components'', ''schemas'']) ''Limit'' = JNum 0
   \<and> resolveRef sample_document ''#/components/schemas/Limit'' = JUndefined"
proof -
  have 1: "ref_parts ''#/components/schemas/Limit'' = [''components'', ''schemas''] @ ''Limit'' # []"
    by (simp add: ref_parts_def)
  have 2: "getprop (walk sample_document [''components'', ''schemas'']) ''Limit'' = JNum 0"
    by (simp add: sample_document_def sample_animal_def)
  from resolveRef_falsy_value [OF 1, of sample_document] 2
  have "resolveRef sample_document ''#/components/schemas/Limit'' = JUndefined" by simp
  with 1 2 show ?thesis by blast
qed

section \<open>Properties of example synthesis\<close>

text \<open>
  Claim C6. When the resolution of a node returns a result that is present, and that
  result carries an example, synthesis returns the example, whatever the type of the
  node says; when it carries no example but a default, synthesis returns the default.
  Synthesis needs one unit of fuel more than the resolution did, and more fuel gives the
  same value.
\<close>

theorem generateExample_example_then_default:
  assumes "resolveSchema n spec node = Return r" and "r \<noteq> JUndefined"
  shows "(getprop r ''example'' \<noteq> JUndefined \<longrightarrow>
            generateExampleFromSchema (Suc (n + k)) spec node = Return (getprop r ''example''))
       \<and> (getprop r ''example'' = JUndefined \<longrightarrow> getprop r ''default'' \<noteq> JUndefined \<longrightarrow>
            generateExampleFromSchema (Suc (n + k)) spec node = Return (getprop r ''default''))"
proof -
  from assms have node: "truthy node" by (rule resolveSchema_truthy_arg)
  from assms have r: "truthy r" using resolveSchema_result by blast
  from assms(1) have res: "resolveSchema (n + k) spec node = Return r" by (rule resolveSchema_mono)
  show ?thesis using node r res by simp
qed

theorem generateExample_example_then_default_witness:
  "resolveSchema 3 sample_document sample_pet_ref = Return sample_animal \<and> sample_animal \<noteq> JUndefined
   \<and> getprop sample_animal ''example'' \<noteq> JUndefined
   \<and> generateExampleFromSchema (Suc (3 + 0)) sample_document sample_pet_ref = Return (JNum 0)
   \<and> resolveSchema 1 sample_document sample_limit = Return sample_limit \<and> sample_limit \<noteq> JUndefined
   \<and> getprop sample_limit ''example'' = JUndefined \<and> getprop sample_limit ''default'' \<noteq> JUndefined
   \<and> generateExampleFromSchema (Suc (1 + 0)) sample_document sample_limit = Return (JNum 20)"
proof -
  have 1: "sample_animal \<noteq> JUndefined" and 2: "getprop sample_animal ''example'' = JNum 0"
    by (simp_all add: sample_animal_def)
  have 3: "resolveSchema 1 sample_document sample_limit = Return sample_limit"
    and 4: "sample_limit \<noteq> JUndefined"
    and 5: "getprop sample_limit ''example'' = JUndefined"
    and 6: "getprop sample_limit ''default'' = JNum 20"
    by (simp_all add: sample_limit_def)
  from generateExample_example_then_default [OF sample_pet_resolves 1, of 0] 2
  have a: "generateExampleFromSchema (Suc (3 + 0)) sample_document sample_pet_ref = Return (JNum 0)"
    by simp
  from generateExample_example_then_default [OF 3 4, of 0] 5 6
  have b: "generateExampleFromSchema (Suc (1 + 0)) sample_document sample_limit = Return (JNum 20)"
    by simp
  show ?thesis using sample_pet_resolves 1 2 3 4 5 6 a b by simp
qed

text \<open>
  Claim C3, at the array of integers: the example of the items is the number 0, which is
  not truthy, so the test \<^verbatim>\<open>itemExample ? [itemExample] : []\<close> gives the empty array and
  not the array of 0. Three units of fuel are enough, and more fuel gives the same value.
\<close>

theorem array_of_integer_example_is_empty:
  "generateExampleFromSchema (Suc (Suc (Suc n))) spec
     (JObj [(''type'', JStr ''array''), (''items'', JObj [(''type'', JStr ''integer'')])])
   = Return (JArr [])"
  by simp

text \<open>The array branch in general: the example of the items is wrapped when it is
  truthy, and dropped when it is not, null or not.\<close>

lemma array_example_wraps_truthy:
  assumes "resolveSchema n spec node = Return r" and "truthy r"
    and "getprop r ''example'' = JUndefined" and "getprop r ''default'' = JUndefined"
    and "getprop r ''type'' = JStr ''array''"
    and "generateExampleFromSchema n spec (getprop r ''items'') = Return itemExample"
  shows "generateExampleFromSchema (Suc n) spec node
         = Return (if truthy itemExample then JArr [itemExample] else JArr [])"
proof -
  from assms(1,2) have "truthy node"
    by (intro resolveSchema_truthy_arg [of n spec node r]) auto
  with assms show ?thesis by simp
qed

text \<open>The array of strings, for comparison: the example \<^verbatim>\<open>string\<close> of the items
  is truthy and is wrapped.\<close>

lemma array_of_string_example:
  "generateExampleFromSchema (Suc (Suc (Suc n))) spec
     (JObj [(''type'', JStr ''array''), (''items'', JObj [(''type'', JStr ''string'')])])
   = Return (JArr [JStr ''string''])"
  by simp

section \<open>Properties of the spec loader\<close>

text \<open>What the loader can do: return a document with both markers truthy, throw one of
  its two errors, or throw the \<^verbatim>\<open>TypeError\<close> of a member access on null or undefined.\<close>

lemma parseOpenAPISpec_outcomes:
  "parseOpenAPISpec JSON_parse yaml_load content = out \<Longrightarrow>
     (\<exists>spec. out = Return spec \<and> truthy (getprop spec ''openapi'') \<and> truthy (getprop spec ''paths''))
     \<or> out = Throw (Error ''Failed to parse spec. Please provide valid JSON or YAML.'')
     \<or> out = Throw (Error ''Invalid OpenAPI spec. Missing required fields.'')
     \<or> out = Throw TypeError"
  by (auto simp: parseOpenAPISpec_def check_required_def member_access_def split: option.splits if_splits)

text \<open>
  Claim C5, at a text that \<^verbatim>\<open>JSON.parse\<close> reads as null: the loader throws a
  \<^verbatim>\<open>TypeError\<close>, not its error for missing required fields.
\<close>

theorem parseOpenAPISpec_null_document:
  "JSON_parse content = Some JNull \<Longrightarrow>
   parseOpenAPISpec JSON_parse yaml_load content = Throw TypeError"
  by (simp add: parseOpenAPISpec_def check_required_def member_access_def)

theorem parseOpenAPISpec_null_document_witness:
  "null_parser ''null'' = Some JNull
   \<and> parseOpenAPISpec null_parser (\<lambda>content. None) ''null'' = Throw TypeError"
proof -
  have 1: "null_parser ''null'' = Some JNull" by (simp add: null_parser_def)
  from parseOpenAPISpec_null_document [of null_parser "''null''" "\<lambda>content. None"] 1 show ?thesis by simp
qed

section \<open>Properties of endpoint extraction\<close>

lemma endpoints_of_item_pairs:
  "map (\<lambda>e. (ep_path e, ep_method e)) (endpoints_of_item path pathItem)
     = map (\<lambda>m. (path, m)) (filter (\<lambda>m. item_operation pathItem m \<noteq> None) HTTP_METHODS)"
proof -
  have "map (\<lambda>e. (ep_path e, ep_method e))
          (concat (map (\<lambda>method.
             (case item_operation pathItem method of
                Some operation \<Rightarrow>
                  [\<lparr> ep_id = replace_non_alnum (method_name method @ ''-'' @ path),
                     ep_path = path,
                     ep_method = method,
                     ep_operation = operation,
                     ep_pathParameters = item_parameters pathItem \<rparr>]
              | None \<Rightarrow> [])) ms))
        = map (\<lambda>m. (path, m)) (filter (\<lambda>m. item_operation pathItem m \<noteq> None) ms)" for ms
    by (induction ms) (auto split: option.splits)
  then show ?thesis by (simp add: endpoints_of_item_def)
qed

lemma endpoints_of_item_id:
  "e \<in> set (endpoints_of_item path pathItem) \<Longrightarrow>
     ep_id e = replace_non_alnum (method_name (ep_method e) @ ''-'' @ ep_path e)"
  by (auto simp: endpoints_of_item_def split: option.splits)

lemma extractEndpoints_id:
  "e \<in> set (extractEndpoints spec) \<Longrightarrow>
     ep_id e = replace_non_alnum (method_name (ep_method e) @ ''-'' @ ep_path e)"
  by (auto simp: extractEndpoints_def dest: endpoints_of_item_id)

text \<open>
  Claim C2 as it is stated fails on the identifiers: the slash of the path becomes a
  hyphen too, after the hyphen that joins verb and path.
\<close>

theorem extractEndpoints_ids_counterexample:
  "map ep_id (extractEndpoints sample_paths) \<noteq> [''get-a'', ''post-a'', ''get-b'']"
  by (simp add: extractEndpoints_def endpoints_of_item_def sample_paths_def empty_item_def
      HTTP_METHODS_def replace_non_alnum_def is_alnum_def)

text \<open>
  Claim C2, amended. The endpoints are, for every path in the order of the path map and
  every verb in the order get, post, put, patch, delete, options, head, the pairs whose
  operation is defined; every identifier is the verb, a hyphen and the path, with each
  character that is not a letter or a digit replaced by a hyphen. For \<^verbatim>\<open>/a\<close> with get and
  post and \<^verbatim>\<open>/b\<close> with get, these are three entries get \<^verbatim>\<open>/a\<close>, post \<^verbatim>\<open>/a\<close>, get
  \<^verbatim>\<open>/b\<close>, with the identifiers \<^verbatim>\<open>get--a\<close>, \<^verbatim>\<open>post--a\<close>, \<^verbatim>\<open>get--b\<close>.
\<close>

theorem extractEndpoints_order_and_ids:
  "map (\<lambda>e. (ep_path e, ep_method e)) (extractEndpoints spec)
     = concat (map (\<lambda>entry. map (\<lambda>m. (fst entry, m))
                      (filter (\<lambda>m. item_operation (snd entry) m \<noteq> None) HTTP_METHODS))
                 (spec_paths spec))
   \<and> map ep_id (extractEndpoints spec)
     = map (\<lambda>e. replace_non_alnum (method_name (ep_method e) @ ''-'' @ ep_path e))
         (extractEndpoints spec)
   \<and> (spec_paths spec =
         [(''/a'', empty_item\<lparr> item_get := Some getA, item_post := Some postA, item_parameters := paramsA \<rparr>),
          (''/b'', empty_item\<lparr> item_get := Some getB, item_parameters := paramsB \<rparr>)]
        \<longrightarrow> map (\<lambda>e. (ep_method e, ep_path e, ep_id e)) (extractEndpoints spec)
            = [(Get, ''/a'', ''get--a''), (Post, ''/a'', ''post--a''), (Get, ''/b'', ''get--b'')])"
proof (intro conjI impI)
  show "map (\<lambda>e. (ep_path e, ep_method e)) (extractEndpoints spec)
     = concat (map (\<lambda>entry. map (\<lambda>m. (fst entry, m))
                      (filter (\<lambda>m. item_operation (snd entry) m \<noteq> None) HTTP_METHODS))
                 (spec_paths spec))"
    by (simp add: extractEndpoints_def map_concat comp_def endpoints_of_item_pairs)
  show "map ep_id (extractEndpoints spec)
     = map (\<lambda>e. replace_non_alnum (method_name (ep_method e) @ ''-'' @ ep_path e))
         (extractEndpoints spec)"
    by (rule map_cong [OF refl]) (rule extractEndpoints_id)
next
  assume "spec_paths spec =
         [(''/a'', empty_item\<lparr> item_get := Some getA, item_post := Some postA, item_parameters := paramsA \<rparr>),
          (''/b'', empty_item\<lparr> item_get := Some getB, item_parameters := paramsB \<rparr>)]"
  then show "map (\<lambda>e. (ep_method e, ep_path e, ep_id e)) (extractEndpoints spec)
            = [(Get, ''/a'', ''get--a''), (Post, ''/a'', ''post--a''), (Get, ''/b'', ''get--b'')]"
    by (simp add: extractEndpoints_def endpoints_of_item_def empty_item_def
      HTTP_METHODS_def replace_non_alnum_def is_alnum_def)
qed

theorem extractEndpoints_order_and_ids_witness:
  "spec_paths sample_paths =
         [(''/a'', empty_item\<lparr> item_get := Some (sample_operation ''listA''),
                                 item_post := Some (sample_operation ''createA''),
                                 item_parameters := None \<rparr>),
          (''/b'', empty_item\<lparr> item_get := Some (sample_operation ''listB''), item_parameters := None \<rparr>)]
   \<and> map (\<lambda>e. (ep_method e, ep_path e, ep_id e)) (extractEndpoints sample_paths)
            = [(Get, ''/a'', ''get--a''), (Post, ''/a'', ''post--a''), (Get, ''/b'', ''get--b'')]"
proof -
  have 1: "spec_paths sample_paths =
         [(''/a'', empty_item\<lparr> item_get := Some (sample_operation ''listA''),
                                 item_post := Some (sample_operation ''createA''),
                                 item_parameters := None \<rparr>),
          (''/b'', empty_item\<lparr> item_get := Some (sample_operation ''listB''), item_parameters := None \<rparr>)]"
    by (simp add: sample_paths_def empty_item_def)
  from extractEndpoints_order_and_ids [of sample_paths] 1 show ?thesis by blast
qed


section \<open>Properties of tag grouping\<close>










section \<open>Properties of the code generators\<close>

text \<open>
  Claim C1 as it is stated fails: a query parameter with neither an example nor a
  default is not left out, it is written with the placeholder \<^verbatim>\<open>value\<close>.
\<close>

theorem buildQueryString_placeholder_counterexample:
  "param_in sample_limit_param = InQuery \<and> \<not> has_example_or_default sample_limit_param
   \<and> buildQueryString sample_number_text (Some [sample_limit_param]) = ''?limit=value''
   \<and> buildQueryString sample_number_text (Some [sample_limit_param])
       \<noteq> buildQueryString sample_number_text
           (Some (filter has_example_or_default [sample_limit_param]))"
  by (simp add: sample_limit_param_def has_example_or_default_def buildQueryString_def
      queryParams_def query_pair_def example_or_def encodeURIComponent_def encode_unit_def
      uri_unreserved_def is_alnum_def)

lemma encode_value: "encodeURIComponent ''value'' = ''value''"
  by (simp add: encodeURIComponent_def encode_unit_def uri_unreserved_def is_alnum_def)

text \<open>
  Claim C1, amended. The query string is built from every query parameter: it is empty
  when there is none, and else a question mark and one pair for every query parameter,
  joined by ampersands in the order of the parameters. Every pair starts with the name
  of its parameter and an equals sign, and the pair of a parameter with neither an
  example nor a default is its name, the equals sign and the placeholder \<^verbatim>\<open>value\<close>:
  the parameter is not left out.
\<close>

theorem buildQueryString_every_query_parameter:
  "buildQueryString number_text None = []
   \<and> buildQueryString number_text (Some ps)
       = (if filter (\<lambda>p. param_in p = InQuery) ps = [] then []
          else ''?'' @ join ''&''
                 (map (query_pair number_text) (filter (\<lambda>p. param_in p = InQuery) ps)))
   \<and> take (Suc (length (param_name p))) (query_pair number_text p) = param_name p @ ''=''
   \<and> (\<not> has_example_or_default p \<longrightarrow> query_pair number_text p = param_name p @ ''=value'')"
proof (intro conjI impI)
  show "buildQueryString number_text None = []"
    by (simp add: buildQueryString_def queryParams_def)
  show "buildQueryString number_text (Some ps)
       = (if filter (\<lambda>p. param_in p = InQuery) ps = [] then []
          else ''?'' @ join ''&''
                 (map (query_pair number_text) (filter (\<lambda>p. param_in p = InQuery) ps)))"
    by (simp add: buildQueryString_def queryParams_def)
  show "take (Suc (length (param_name p))) (query_pair number_text p) = param_name p @ ''=''"
    by (simp add: query_pair_def)
next
  assume "\<not> has_example_or_default p"
  then have "param_example p = JUndefined" and "getprop (param_schema p) ''example'' = JUndefined"
    by (simp_all add: has_example_or_default_def)
  then show "query_pair number_text p = param_name p @ ''=value''"
    by (simp add: query_pair_def example_or_def encode_value)
qed

theorem buildQueryString_every_query_parameter_witness:
  "\<not> has_example_or_default sample_limit_param
   \<and> query_pair sample_number_text sample_limit_param = ''limit=value''
   \<and> buildQueryString sample_number_text (Some [sample_status_param, sample_limit_param])
       = ''?status=on%20hold&limit=value''"
proof -
  have 1: "\<not> has_example_or_default sample_limit_param"
    by (simp add: has_example_or_default_def sample_limit_param_def)
  have 2: "filter (\<lambda>p. param_in p = InQuery) [sample_status_param, sample_limit_param]
            = [sample_status_param, sample_limit_param]"
    and 3: "param_name sample_limit_param = ''limit''"
    by (simp_all add: sample_status_param_def sample_limit_param_def)
  have 4: "query_pair sample_number_text sample_status_param = ''status=on%20hold''"
    by (simp add: query_pair_def example_or_def sample_status_param_def encodeURIComponent_def
        encode_unit_def uri_unreserved_def is_alnum_def hex_upper_def)
  from buildQueryString_every_query_parameter
         [of sample_number_text "[sample_status_param, sample_limit_param]" sample_limit_param]
       1 2 3 4
  show ?thesis by simp
qed

lemma body_verbs_upper:
  "toUpperCase (method_name m) \<in> set [''POST'', ''PUT'', ''PATCH''] \<longleftrightarrow> m \<in> {Post, Put, Patch}"
  by (cases m) (simp_all add: toUpperCase_def upper_char_def)

lemma body_verbs_lower:
  "toLowerCase (method_name m) \<in> set [''post'', ''put'', ''patch''] \<longleftrightarrow> m \<in> {Post, Put, Patch}"
  by (cases m) (simp_all add: toLowerCase_def lower_char_def)

text \<open>The text of each generator when the test
  \<^verbatim>\<open>body && [...].includes(method)\<close> fails: the request without a body.\<close>

lemma text_without_body:
  assumes "ep_method endpoint \<notin> {Post, Put, Patch} \<or> \<not> truthy body"
  shows "curl_text number_text endpoint options body
         = request_without_body number_text Curl (ep_method endpoint)
             (request_url number_text endpoint options) (request_headers options)"
    and "javascript_text number_text endpoint options body
         = request_without_body number_text JavaScript (ep_method endpoint)
             (request_url number_text endpoint options) (request_headers options)"
    and "python_text number_text endpoint options body
         = request_without_body number_text Python (ep_method endpoint)
             (request_url number_text endpoint options) (request_headers options)"
    and "go_text number_text endpoint options body
         = request_without_body number_text Go (ep_method endpoint)
             (request_url number_text endpoint options) (request_headers options)"
proof -
  from assms show "curl_text number_text endpoint options body
         = request_without_body number_text Curl (ep_method endpoint)
             (request_url number_text endpoint options) (request_headers options)"
    unfolding curl_text_def body_verbs_upper by auto
  from assms show "javascript_text number_text endpoint options body
         = request_without_body number_text JavaScript (ep_method endpoint)
             (request_url number_text endpoint options) (request_headers options)"
    unfolding javascript_text_def body_verbs_upper by auto
  from assms show "python_text number_text endpoint options body
         = request_without_body number_text Python (ep_method endpoint)
             (request_url number_text endpoint options) (request_headers options)"
    unfolding python_text_def body_verbs_lower by auto
  from assms show "go_text number_text endpoint options body
         = request_without_body number_text Go (ep_method endpoint)
             (request_url number_text endpoint options) (request_headers options)"
    unfolding go_text_def go_bodyCode_def go_headersCode_def body_verbs_upper by auto
qed

text \<open>The other side, in the command-line convention: for a create, replace or update
  verb and a truthy body, the text is the request without a body followed by the body
  part.\<close>

lemma curl_text_with_body:
  assumes "ep_method endpoint \<in> {Post, Put, Patch}" and "truthy body"
  shows "curl_text number_text endpoint options body
         = request_without_body number_text Curl (ep_method endpoint)
             (request_url number_text endpoint options) (request_headers options)
           @ curl_body_part number_text body"
  using assms unfolding curl_text_def curl_body_part_def body_verbs_upper by auto

text \<open>
  Claim C9. When a generator returns a text for an endpoint whose verb is not post, put
  or patch, or for which no body value was computed (\<^verbatim>\<open>getRequestBody\<close> returns null),
  that text is the request without a body in the convention asked for: it is made of the
  verb, the URL and the headers, and nothing of the request body that the operation
  declares, of its example or of a synthesized payload is in it. This holds for the four
  target conventions, every document and all options.
\<close>

theorem snippet_body_only_for_body_verbs:
  assumes "generateCode number_text fuel language spec endpoint options = Return text"
    and "ep_method endpoint \<notin> {Post, Put, Patch} \<or> getRequestBody fuel spec endpoint = Return JNull"
  shows "text = request_without_body number_text language (ep_method endpoint)
                  (request_url number_text endpoint options) (request_headers options)"
proof -
  from assms(1) obtain body where body: "getRequestBody fuel spec endpoint = Return body"
    by (cases language; cases "getRequestBody fuel spec endpoint")
       (simp_all add: generateCurl_def generateJavaScript_def generatePython_def generateGo_def
          with_body_def)
  with assms(2) have cond: "ep_method endpoint \<notin> {Post, Put, Patch} \<or> \<not> truthy body"
    by auto
  show ?thesis
    using assms(1) body text_without_body [OF cond, of number_text options]
    by (cases language)
       (simp_all add: generateCurl_def generateJavaScript_def generatePython_def generateGo_def
          with_body_def)
qed

text \<open>The snippets of the sample endpoint, which declares a request body schema: as a
  read endpoint without a body, as a create endpoint with the synthesized body.\<close>

lemma sample_get_snippet:
  \<open>generateCode sample_number_text 4 Curl sample_document (sample_body_endpoint Get) sample_options
   = Return (''curl -X GET "https://api.example.com/pets/123" '' @ [CHR 0x5C] @ ''\<newline>''
             @ ''  -H "Content-Type: application/json"'')\<close>
  by code_simp

lemma sample_post_snippet:
  \<open>generateCode sample_number_text 4 Curl sample_document (sample_body_endpoint Post) sample_options
   = Return (''curl -X POST "https://api.example.com/pets/123" '' @ [CHR 0x5C] @ ''\<newline>''
             @ ''  -H "Content-Type: application/json" '' @ [CHR 0x5C] @ ''\<newline>''
             @ ''  -d '' @ [CHR 0x27] @ ''{'' @ ''\<newline>'' @ ''  "name": "string"'' @ ''\<newline>'' @ ''}'' @ [CHR 0x27])\<close>
  by code_simp

theorem snippet_body_only_for_body_verbs_witness:
  \<open>generateCode sample_number_text 4 Curl sample_document (sample_body_endpoint Get) sample_options
     = Return (''curl -X GET "https://api.example.com/pets/123" '' @ [CHR 0x5C] @ ''\<newline>''
               @ ''  -H "Content-Type: application/json"'')
   \<and> ep_method (sample_body_endpoint Get) = Get
   \<and> op_requestBody (ep_operation (sample_body_endpoint Get)) \<noteq> None
   \<and> request_without_body sample_number_text Curl Get
        (request_url sample_number_text (sample_body_endpoint Get) sample_options)
        (request_headers sample_options)
     = ''curl -X GET "https://api.example.com/pets/123" '' @ [CHR 0x5C] @ ''\<newline>''
               @ ''  -H "Content-Type: application/json"''\<close>
proof -
  have 1: "ep_method (sample_body_endpoint Get) \<notin> {Post, Put, Patch}
        \<or> getRequestBody 4 sample_document (sample_body_endpoint Get) = Return JNull"
    by (simp add: sample_body_endpoint_def)
  have 2: "op_requestBody (ep_operation (sample_body_endpoint Get)) \<noteq> None"
    by (simp add: sample_body_endpoint_def sample_body_operation_def)
  have 3: "ep_method (sample_body_endpoint Get) = Get"
    by (simp add: sample_body_endpoint_def)
  from snippet_body_only_for_body_verbs [OF sample_get_snippet 1] sample_get_snippet 2 3
  show ?thesis by simp
qed

end
